theory Spec2Isabelle
  imports Complex_Main
begin

unbundle bit_operations_syntax

section \<open>Values, errors and diagnostics\<close>

text \<open>
  The generators of \<^verbatim>\<open>sound_field_analysis/gen.py\<close> are embedded over the real and
  complex numbers: a float is a \<^typ>\<open>real\<close>, a complex float a \<^typ>\<open>complex\<close>, a
  numpy vector a list and a numpy matrix a list of rows. Rounding, infinities and NaN are
  outside the embedding.

  Python is dynamically typed: the configuration arguments of \<^verbatim>\<open>ideal_wave\<close> are tested
  with \<^verbatim>\<open>in\<close> against sets of strings and may hold any value, so they are values of
  \<open>pyval\<close>. The source tests them in two ways. \<^verbatim>\<open>x in {'plane', 'spherical'}\<close>
  compares values. \<^verbatim>\<open>x is 'plane'\<close> compares objects: it holds when \<open>x\<close> is the very
  object of the literal, which CPython interns, and fails for any other string object,
  also one of the same characters (a string built at run time). A string therefore
  carries its characters and whether it is the interned object.
\<close>

datatype pyval = PStr string bool | PInt int | PFloat real

definition str_in :: "pyval \<Rightarrow> string list \<Rightarrow> bool" where
  "str_in x literals = (case x of PStr s interned \<Rightarrow> s \<in> set literals | PInt n \<Rightarrow> False | PFloat r \<Rightarrow> False)"

definition str_is :: "pyval \<Rightarrow> string \<Rightarrow> bool" where
  "str_is x literal = (x = PStr literal True)"

text \<open>
  Every \<^verbatim>\<open>raise\<close> of the source and every exception of the interpreter or of numpy that
  the embedded paths can meet is a value of \<open>error\<close>. \<open>ValueError\<close> carries the
  message; \<open>InvalidDegree\<close> is the \<^verbatim>\<open>ValueError\<close> of \<^verbatim>\<open>lebedev\<close>, whose arguments
  are the degree and the array of available degrees; \<open>AmbiguousTruthValue\<close> is numpy's
  \<^verbatim>\<open>ValueError\<close> for the truth value of an array with more than one element and
  \<open>BroadcastError\<close> its \<^verbatim>\<open>ValueError\<close> for operands that cannot be broadcast together.
\<close>

datatype error =
    ValueError string
  | InvalidDegree int "int list"
  | AmbiguousTruthValue
  | BroadcastError
  | IndexError
  | TypeError string
  | UnboundLocalError string
  | ZeroDivisionError

text \<open>What \<^verbatim>\<open>print\<close> and \<^verbatim>\<open>progress_bar\<close> emit, in order.\<close>

datatype message =
    Msg string
  | MsgReal string real
  | MsgInts string int int
  | Progress nat nat string

text \<open>
  The functions imported from \<^verbatim>\<open>.sph\<close>, \<^verbatim>\<open>.process\<close> and \<^verbatim>\<open>.lebedev\<close>, and numpy's
  \<^verbatim>\<open>leggauss\<close> and \<^verbatim>\<open>argsort\<close>, are not part of \<^verbatim>\<open>gen.py\<close>; they are parameters
  of the embedding. \<open>array_extrapolation\<close>, \<open>kr_sph\<close> (the function \<^verbatim>\<open>kr\<close> of
  \<^verbatim>\<open>.sph\<close>) and \<open>sphankel2\<close> answer one frequency bin; on a vector they are applied
  bin by bin. \<open>array_extrapolation\<close> takes the order, the two kr (or frequency and
  radius) values, the array configuration and the optional scatter radius and transducer
  type.
\<close>

record collaborators =
  sph_harm :: "int \<Rightarrow> int \<Rightarrow> real \<Rightarrow> real \<Rightarrow> complex"
  array_extrapolation :: "int \<Rightarrow> real \<Rightarrow> real \<Rightarrow> pyval \<Rightarrow> real option \<Rightarrow> pyval option \<Rightarrow> complex"
  kr_sph :: "real \<Rightarrow> real \<Rightarrow> real"
  sphankel2 :: "int \<Rightarrow> real \<Rightarrow> complex"
  iSpatFT :: "complex list list \<Rightarrow> real list list \<Rightarrow> complex list list"
  genGrid :: "int \<Rightarrow> (real \<times> real \<times> real \<times> real) list"
  cart2sph :: "real \<Rightarrow> real \<Rightarrow> real \<Rightarrow> real \<times> real \<times> real"
  leggauss :: "nat \<Rightarrow> real list \<times> real list"
  argsort :: "real list \<Rightarrow> nat list"

section \<open>numpy primitives\<close>

text \<open>\<^verbatim>\<open>int(x)\<close> on a float truncates towards zero.\<close>

definition py_int :: "real \<Rightarrow> int" where
  "py_int x = (if 0 \<le> x then \<lfloor>x\<rfloor> else \<lceil>x\<rceil>)"

text \<open>
  \<^verbatim>\<open>numpy.linspace(start, stop, num)\<close>: \<open>num\<close> evenly spaced samples, the end point
  included; a single sample is \<open>start\<close>.
\<close>

definition linspace :: "real \<Rightarrow> real \<Rightarrow> nat \<Rightarrow> real list" where
  "linspace start stop num =
     (if num = 1 then [start]
      else map (\<lambda>i. start + real i * ((stop - start) / real (num - 1))) [0..<num])"

text \<open>
  \<^verbatim>\<open>numpy.empty(shape)\<close> returns the array without initialising its entries: what it
  holds is what the allocated memory held. That content is the parameter \<open>mem\<close>.
\<close>

definition np_empty :: "(nat \<Rightarrow> nat \<Rightarrow> 'a) \<Rightarrow> nat \<Rightarrow> nat \<Rightarrow> 'a list list" where
  "np_empty mem rows cols = map (\<lambda>i. map (mem i) [0..<cols]) [0..<rows]"

definition np_zeros :: "nat \<Rightarrow> nat \<Rightarrow> complex list list" where
  "np_zeros rows cols = replicate rows (replicate cols 0)"

section \<open>ideal\_wave\<close>

text \<open>
  The body of the first loop of \<^verbatim>\<open>ideal_wave\<close>: the radial filter of order \<open>n\<close>, one
  value per frequency bin. \<open>w\<close> and \<open>freqs\<close> are the two \<^verbatim>\<open>linspace\<close> vectors.
\<close>

definition time_shift :: "real \<Rightarrow> real \<Rightarrow> complex" where
  "time_shift wi delay = exp (- \<i> * complex_of_real wi * complex_of_real delay)"

definition plane_filter :: "collaborators \<Rightarrow> int \<Rightarrow> real \<Rightarrow> pyval \<Rightarrow> pyval \<Rightarrow> real \<Rightarrow> real list \<Rightarrow> real list \<Rightarrow> complex list" where
  "plane_filter env n array_radius array_configuration transducer_type delay w freqs =
     map (\<lambda>(wi, f). time_shift wi delay *
            array_extrapolation env n f array_radius array_configuration
              (Some array_radius) (Some transducer_type))
       (zip w freqs)"

definition spherical_filter :: "collaborators \<Rightarrow> int \<Rightarrow> real \<Rightarrow> pyval \<Rightarrow> pyval \<Rightarrow> real \<Rightarrow> real \<Rightarrow> real \<Rightarrow> real list \<Rightarrow> real list \<Rightarrow> complex list" where
  "spherical_filter env n array_radius array_configuration transducer_type distance c delay w freqs =
     map (\<lambda>(wi, f). 4 * complex_of_real pi * (- \<i>) * complex_of_real wi / complex_of_real c *
            time_shift wi delay * sphankel2 env n (kr_sph env f distance) *
            array_extrapolation env n f array_radius array_configuration
              (Some array_radius) (Some transducer_type))
       (zip w freqs)"

definition radial_filters_step :: "collaborators \<Rightarrow> real \<Rightarrow> pyval \<Rightarrow> pyval \<Rightarrow> pyval \<Rightarrow> real \<Rightarrow> real \<Rightarrow> real \<Rightarrow> real list \<Rightarrow> real list \<Rightarrow> nat \<Rightarrow> complex list list \<Rightarrow> complex list list" where
  "radial_filters_step env array_radius array_configuration transducer_type wavetype distance c delay w freqs n radial_filters =
     (if str_is wavetype ''plane'' then
        radial_filters[n := plane_filter env (int n) array_radius array_configuration transducer_type delay w freqs]
      else if str_is wavetype ''spherical'' then
        radial_filters[n := spherical_filter env (int n) array_radius array_configuration transducer_type distance c delay w freqs]
      else radial_filters)"

text \<open>
  The first loop: the rows \<open>0..SegN\<close> of the zero matrix \<open>radial_filters\<close> are filled.
  When the wavetype is neither the literal \<^verbatim>\<open>'plane'\<close> nor the literal \<^verbatim>\<open>'spherical'\<close>
  no row is written.
\<close>

definition radial_filter_bank :: "collaborators \<Rightarrow> real \<Rightarrow> pyval \<Rightarrow> pyval \<Rightarrow> pyval \<Rightarrow> real \<Rightarrow> real \<Rightarrow> real \<Rightarrow> real \<Rightarrow> int \<Rightarrow> int \<Rightarrow> int \<Rightarrow> complex list list" where
  "radial_filter_bank env array_radius array_configuration transducer_type wavetype distance fs c delay
     NMLocatorSize NFFT SegN =
     (let w = linspace 0 (pi * fs) (nat NFFT);
          freqs = linspace 0 (fs / 2) (nat NFFT)
      in fold
           (radial_filters_step env array_radius array_configuration transducer_type wavetype
              distance c delay w freqs)
           [0..<nat (SegN + 1)] (np_zeros (nat NMLocatorSize) (nat NFFT)))"

text \<open>
  The generator core: for \<open>n = 0..SegN\<close> and \<open>m = -n..n\<close>, row \<open>ctr\<close> of \<open>Pnm\<close> is
  written and \<open>ctr\<close> advances. The state of the loops is the pair \<open>(Pnm, ctr)\<close>.
  The source also calls \<^verbatim>\<open>mnArrays(SegN + 1)\<close>; the loop variables overwrite both
  results before any use, and the call is left out.
\<close>

definition core_step :: "collaborators \<Rightarrow> real \<Rightarrow> real \<Rightarrow> complex list list \<Rightarrow> nat \<Rightarrow> int \<Rightarrow> complex list list \<times> nat \<Rightarrow> complex list list \<times> nat" where
  "core_step env azimuth colatitude radial_filters n m st =
     (case st of (Pnm, ctr) \<Rightarrow>
        (Pnm[ctr := map (\<lambda>x. cnj (sph_harm env m (int n) azimuth colatitude) * x) (radial_filters ! n)],
         ctr + 1))"

definition generator_core :: "collaborators \<Rightarrow> real \<Rightarrow> real \<Rightarrow> complex list list \<Rightarrow> int \<Rightarrow> complex list list \<Rightarrow> complex list list" where
  "generator_core env azimuth colatitude radial_filters SegN Pnm0 =
     fst (fold (\<lambda>n st. fold (core_step env azimuth colatitude radial_filters n) [- int n..int n] st)
            [0..<nat (SegN + 1)] (Pnm0, 0))"

text \<open>
  \<^verbatim>\<open>ideal_wave\<close>, with the source's parameters in the source's order after the
  collaborators and the content of the memory that \<^verbatim>\<open>numpy.empty\<close> hands out for
  \<open>Pnm\<close>. \<open>SegN\<close> and \<open>upperSegLim\<close> default to \<^verbatim>\<open>None\<close>. The safety checks
  are the source's, in the source's order. A call that passes them has
  \<open>0 \<le> lowerSegLim \<le> upperSegLim \<le> NFFT - 1\<close>, so the sample count of the two
  \<^verbatim>\<open>linspace\<close> calls is positive and \<open>SegN \<le> N\<close> keeps every written row inside the
  matrices. The membership tests compare values (\<open>str_in\<close>); the tests written with
  \<^verbatim>\<open>is\<close> and \<^verbatim>\<open>is not\<close> compare objects (\<open>str_is\<close>).
\<close>

definition ideal_wave ::
  "collaborators \<Rightarrow> (nat \<Rightarrow> nat \<Rightarrow> complex) \<Rightarrow> int \<Rightarrow> real \<Rightarrow> real \<Rightarrow> real \<Rightarrow> pyval \<Rightarrow> pyval \<Rightarrow> real option \<Rightarrow>
   pyval \<Rightarrow> real \<Rightarrow> real \<Rightarrow> int \<Rightarrow> real \<Rightarrow> real \<Rightarrow> int option \<Rightarrow> int \<Rightarrow> int option \<Rightarrow> error + complex list list" where
  "ideal_wave env mem N azimuth colatitude array_radius array_configuration transducer_type scatter_radius
     wavetype distance fs F_NFFT delay c SegN lowerSegLim upperSegLim =
     (let NFFT = py_int (real_of_int F_NFFT / 2 + 1);
          NMLocatorSize = (N + 1) ^ 2;
          SegN = (case SegN of None \<Rightarrow> N | Some s \<Rightarrow> s);
          upperSegLim = (case upperSegLim of None \<Rightarrow> NFFT - 1 | Some u \<Rightarrow> u)
      in if upperSegLim < lowerSegLim then
           Inl (ValueError ''Upper segment limit needs to be below lower limit.'')
         else if upperSegLim > NFFT - 1 then
           Inl (ValueError ''Upper segment limit needs to be below NFFT - 1.'')
         else if upperSegLim > NFFT - 1 \<or> upperSegLim < 0 then
           Inl (ValueError ''Upper segment limit needs to be between 0 and NFFT - 1.'')
         else if lowerSegLim > NFFT - 1 \<or> lowerSegLim < 0 then
           Inl (ValueError ''Lower segment limit needs to be between 0 and NFFT - 1.'')
         else if SegN > N then
           Inl (ValueError ''Segment order needs to be smaller than N.'')
         else if \<not> str_in wavetype [''plane'', ''spherical''] then
           Inl (ValueError ''Invalid wavetype: Choose either plane or spherical.'')
         else if \<not> str_in array_configuration [''open'', ''rigid'', ''dual''] then
           Inl (ValueError ''Sphere configuration has to be either open (default), rigid, or dual.'')
         else if \<not> str_in transducer_type [''pressure'', ''velocity''] then
           Inl (ValueError ''Transducer type has to be either pressure (default) or velocity.'')
         else if str_is array_configuration ''dual'' \<and> \<not> str_is transducer_type ''pressure'' then
           Inl (ValueError ''For dual sphere configuration, only pressure transducers are allowed.'')
         else if delay * fs > real_of_int F_NFFT / 2 then
           Inl (ValueError ''Delay t is large for provided NFFT. Choose t < NFFT/(2*FS).'')
         else if str_is wavetype ''plane'' \<and> distance \<le> array_radius then
           Inl (ValueError ''Invalid source distance, source must be outside the microphone radius.'')
         else
           (let radial_filters = radial_filter_bank env array_radius array_configuration transducer_type
                  wavetype distance fs c delay NMLocatorSize NFFT SegN;
                Pnm = np_empty mem (nat NMLocatorSize) (nat NFFT)
            in Inr (generator_core env azimuth colatitude radial_filters SegN Pnm)))"

section \<open>radFilter\<close>

text \<open>
  The \<open>kr\<close> argument is a vector, or the documented matrix of two rows
  \<^verbatim>\<open>[kr_mic; kr_sphere]\<close> (two rows of one length). The caller owns the array;
  \<^verbatim>\<open>radFilter\<close> writes to it, so the embedding returns the array as the call leaves it.
\<close>

datatype kr_array = Vec "real list" | Mat "real list" "real list"

text \<open>
  The degenerate-kr guard, \<^verbatim>\<open>if kr[0] == 0: kr[0] = kr[1]\<close>. On a vector \<^verbatim>\<open>kr[0]\<close>
  and \<^verbatim>\<open>kr[1]\<close> are elements and an index out of range raises. On a matrix
  \<^verbatim>\<open>kr[0]\<close> is the first row, \<^verbatim>\<open>kr[0] == 0\<close> an array of booleans, and \<^verbatim>\<open>if\<close> asks
  for its truth value: numpy raises for more than one element, answers the element for one
  and False for none. The result is the outcome and the caller's array.
\<close>

definition kr_guard :: "kr_array \<Rightarrow> (error + unit) \<times> kr_array" where
  "kr_guard kr =
     (case kr of
        Vec v \<Rightarrow>
          (case v of
             [] \<Rightarrow> (Inl IndexError, kr)
           | x # xs \<Rightarrow>
               if x = 0 then
                 (case xs of [] \<Rightarrow> (Inl IndexError, kr) | y # ys \<Rightarrow> (Inr (), Vec (y # xs)))
               else (Inr (), kr))
      | Mat r0 r1 \<Rightarrow>
          if length r0 > 1 then (Inl AmbiguousTruthValue, kr)
          else if r0 = [0] then (Inr (), Mat r1 r1)
          else (Inr (), kr))"

text \<open>
  The BN filter loop. \<^verbatim>\<open>krm[ctrb]\<close> and \<^verbatim>\<open>krs[ctrb]\<close> are copies of the whole
  vector, so the response of order \<open>ctr\<close> is taken bin by bin with both kr values equal.
  \<open>amplicalc\<close> is 1 unless the limiter is on.
\<close>

definition amplicalc :: "real \<Rightarrow> bool \<Rightarrow> complex \<Rightarrow> complex" where
  "amplicalc a_max limiteronflag bnval =
     (if limiteronflag then
        complex_of_real (2 * a_max / pi * cmod bnval * arctan (pi / (2 * a_max * cmod bnval)))
      else 1)"

definition bn :: "collaborators \<Rightarrow> int \<Rightarrow> nat \<Rightarrow> real \<Rightarrow> complex" where
  "bn env ac n x = array_extrapolation env (int n) x x (PInt ac) None None"

definition bn_filters :: "collaborators \<Rightarrow> (nat \<Rightarrow> nat \<Rightarrow> complex) \<Rightarrow> nat \<Rightarrow> real list \<Rightarrow> int \<Rightarrow> real \<Rightarrow> complex list list" where
  "bn_filters env mem N v ac amp_maxdB =
     (let a_max = 10 powr (amp_maxdB / 20);
          limiteronflag = (amp_maxdB \<noteq> 0)
      in fold (\<lambda>ctr OutputArray.
                 OutputArray[ctr := map (\<lambda>x. amplicalc a_max limiteronflag (bn env ac ctr x) / bn env ac ctr x) v])
           [0..<N + 1] (np_empty mem (N + 1) (length v)))"

text \<open>
  The loop that computes \<open>xi\<close>. The inner loop adds its scalar term to the whole vector
  (\<^verbatim>\<open>xi = xi + ...\<close>); the two assignments after it change element \<open>ctr\<close> only.
\<close>

definition xi_curve :: "collaborators \<Rightarrow> nat \<Rightarrow> real list \<Rightarrow> int \<Rightarrow> complex list list \<Rightarrow> complex list" where
  "xi_curve env N v ac OutputArray =
     fold (\<lambda>ctr xi.
             let xi = fold (\<lambda>ctrb xi.
                        map (\<lambda>x. x + of_nat (2 * ctrb + 1) *
                               (1 - OutputArray ! ctrb ! ctr * bn env ac ctrb (v ! ctr))) xi)
                      [0..<N + 1] xi;
                 xi = xi[ctr := xi ! ctr * 1 / bn env ac 0 (v ! ctr)];
                 xi = xi[ctr := xi ! ctr + OutputArray ! 0 ! ctr]
             in xi)
       [0..<length v] (replicate (length v) 0)"

text \<open>
  The branch \<^verbatim>\<open>plc == 1\<close> once \<open>xi\<close> is read. It changes no filter: it prints, and
  unless the gap exceeds 20 dB it reaches \<^verbatim>\<open>fadeover > minDis | (minDis + fadeover) > krN\<close>,
  where \<^verbatim>\<open>|\<close> binds tighter than the comparisons and has two floats as operands, which
  raises.
\<close>

definition argmin :: "real list \<Rightarrow> nat" where
  "argmin d = length (takeWhile (\<lambda>x. x \<noteq> Min (set d)) d)"

definition low_kr_plc :: "complex list list \<Rightarrow> complex list \<Rightarrow> bool \<Rightarrow> message list \<times> (error + unit)" where
  "low_kr_plc OutputArray xi printInfo =
     (let minDisIDX = argmin (map (\<lambda>(a, b). cmod (a - b)) (zip (OutputArray ! 0) xi));
          filtergap = 20 * log 10 (1 / cmod (OutputArray ! 0 ! minDisIDX / xi ! minDisIDX));
          out = (if printInfo then [MsgReal ''Filter fade gap: '' filtergap] else [])
      in if \<bar>filtergap\<bar> > 20 then
           (out @ [Msg ''Filter fade gap too large, no powerloss compensation applied.''], Inr ())
         else
           (out @ (if \<bar>filtergap\<bar> > 5 then [Msg ''Filtergap is large (> 5 dB).''] else []),
            Inl (TypeError ''unsupported operand type(s) for |'')))"

definition beam_response :: "collaborators \<Rightarrow> nat \<Rightarrow> real list \<Rightarrow> int \<Rightarrow> complex list list \<Rightarrow> complex list" where
  "beam_response env N v ac OutputArray =
     map (\<lambda>b. b / of_nat ((N + 1) ^ 2))
       (fold (\<lambda>ctrb BeamResponse.
                map (\<lambda>(b, x, out). b + of_nat (2 * ctrb + 1) * bn env ac ctrb x * out)
                  (zip BeamResponse (zip v (OutputArray ! ctrb))))
          [0..<N + 1] (replicate (length v) 0))"

text \<open>
  What a call leaves behind: the lines printed, what it returns or raises, and the
  caller's \<open>kr\<close> array.
\<close>

record radFilter_outcome =
  printed :: "message list"
  returned :: "error + complex list list \<times> complex list"
  kr_after :: kr_array

text \<open>
  The guard \<^verbatim>\<open>krN < 32 & plc != 0\<close>: \<^verbatim>\<open>&\<close> binds tighter than the comparisons, and the
  comparisons chain, so the test is \<^verbatim>\<open>krN < (32 & plc) and (32 & plc) != 0\<close>.
\<close>

definition plc_guard :: "nat \<Rightarrow> int \<Rightarrow> bool" where
  "plc_guard krN plc = (int krN < 32 AND plc \<and> 32 AND plc \<noteq> 0)"

text \<open>
  A vector that has passed the degenerate-kr guard. \<open>xi\<close> is a local variable that is
  bound only under \<^verbatim>\<open>if not plc\<close>; reading it unbound raises.
\<close>

definition radFilter_vec :: "collaborators \<Rightarrow> (nat \<Rightarrow> nat \<Rightarrow> complex) \<Rightarrow> message list \<Rightarrow> nat \<Rightarrow> real list \<Rightarrow> int \<Rightarrow> real \<Rightarrow> int \<Rightarrow> real \<Rightarrow> bool \<Rightarrow> radFilter_outcome" where
  "radFilter_vec env mem out N v ac amp_maxdB plc fadeover printInfo =
     (let krN = length v;
          OutputArray = bn_filters env mem N v ac amp_maxdB;
          out = out @ (if plc_guard krN plc then [Msg ''Not enough kr values for PLC fading. PLC disabled.''] else []);
          plc = (if plc_guard krN plc then 0 else plc);
          xi = (if plc = 0 then Some (xi_curve env N v ac OutputArray) else None)
      in if plc = 1 then
           (case xi of
              None \<Rightarrow> \<lparr>printed = out, returned = Inl (UnboundLocalError ''xi''), kr_after = Vec v\<rparr>
            | Some x \<Rightarrow>
                (case low_kr_plc OutputArray x printInfo of
                   (out', Inl e) \<Rightarrow> \<lparr>printed = out @ out', returned = Inl e, kr_after = Vec v\<rparr>
                 | (out', Inr u) \<Rightarrow>
                     \<lparr>printed = out @ out',
                      returned = Inr (OutputArray, beam_response env N v ac OutputArray),
                      kr_after = Vec v\<rparr>))
         else if plc = 2 then
           (case xi of
              None \<Rightarrow> \<lparr>printed = out, returned = Inl (UnboundLocalError ''xi''), kr_after = Vec v\<rparr>
            | Some x \<Rightarrow>
                \<lparr>printed = out,
                 returned = Inr (OutputArray[0 := x], beam_response env N v ac (OutputArray[0 := x])),
                 kr_after = Vec v\<rparr>)
         else
           \<lparr>printed = out,
            returned = Inr (OutputArray, beam_response env N v ac OutputArray),
            kr_after = Vec v\<rparr>)"

text \<open>
  A matrix that has passed the guard has at most one bin per row. With no bin, the index
  vector \<^verbatim>\<open>ctrb\<close> is an empty float array and \<^verbatim>\<open>krm[ctrb]\<close> raises in the first pass of
  the filter loop. With one bin the filters, the guard on \<open>plc\<close> and \<open>xi\<close> go as for a
  vector; the beam response then adds an array of two rows to a vector of one element in
  place, which numpy refuses.
\<close>

definition radFilter_mat :: "message list \<Rightarrow> real list \<Rightarrow> real list \<Rightarrow> int \<Rightarrow> radFilter_outcome" where
  "radFilter_mat out r0 r1 plc =
     (let krN = length r0 in
      if krN = 0 then \<lparr>printed = out, returned = Inl IndexError, kr_after = Mat r0 r1\<rparr>
      else
        (let out = out @ (if plc_guard krN plc then [Msg ''Not enough kr values for PLC fading. PLC disabled.''] else []);
             plc = (if plc_guard krN plc then 0 else plc)
         in if plc = 1 \<or> plc = 2 then
              \<lparr>printed = out, returned = Inl (UnboundLocalError ''xi''), kr_after = Mat r0 r1\<rparr>
            else \<lparr>printed = out, returned = Inl BroadcastError, kr_after = Mat r0 r1\<rparr>))"

text \<open>
  \<^verbatim>\<open>radFilter(N, kr, ac, amp_maxdB, plc, fadeover, printInfo)\<close>, for an order
  \<open>N \<ge> 0\<close>. \<open>mem\<close> is the content of the memory that \<^verbatim>\<open>numpy.empty\<close> hands out for
  \<open>OutputArray\<close>.
\<close>

definition radFilter :: "collaborators \<Rightarrow> (nat \<Rightarrow> nat \<Rightarrow> complex) \<Rightarrow> nat \<Rightarrow> kr_array \<Rightarrow> int \<Rightarrow> real \<Rightarrow> int \<Rightarrow> real \<Rightarrow> bool \<Rightarrow> radFilter_outcome" where
  "radFilter env mem N kr ac amp_maxdB plc fadeover printInfo =
     (let out = (if printInfo then [Msg ''radFilter - Modal radial filter generator''] else [])
      in case kr_guard kr of
           (Inl e, kr') \<Rightarrow> \<lparr>printed = out, returned = Inl e, kr_after = kr'\<rparr>
         | (Inr u, kr') \<Rightarrow>
             (case kr' of
                Vec v \<Rightarrow> radFilter_vec env mem out N v ac amp_maxdB plc fadeover printInfo
              | Mat r0 r1 \<Rightarrow> radFilter_mat out r0 r1 plc))"

section \<open>lebedev\<close>

definition deg_avail :: "int list" where
  "deg_avail = [6, 14, 26, 38, 50, 74, 86, 110, 146, 170, 194]"

text \<open>Python's \<^verbatim>\<open>x % m\<close> on floats, for a positive \<open>m\<close>.\<close>

definition py_fmod :: "real \<Rightarrow> real \<Rightarrow> real" where
  "py_fmod x m = x - m * real_of_int \<lfloor>x / m\<rfloor>"

text \<open>
  \<^verbatim>\<open>lebedev(degree, printInfo)\<close>. \<open>genGrid\<close> answers the points of the grid, each with
  its Cartesian coordinates and its weight; the rows are reordered twice by the
  permutation \<open>argsort\<close> computes. The result is what was printed and the pair of the
  grid and \<open>Nmax\<close>, or the error.
\<close>

definition lebedev :: "collaborators \<Rightarrow> int \<Rightarrow> bool \<Rightarrow> message list \<times> (error + real list list \<times> real)" where
  "lebedev env degree printInfo =
     (let out = (if printInfo then [Msg ''Lebedev Grid''] else [])
      in if degree \<notin> set deg_avail then (out, Inl (InvalidDegree degree deg_avail))
         else
           (let leb = genGrid env degree;
                gridData = map (\<lambda>(x, y, z, w).
                                  case cart2sph env x y z of
                                    (theta, phi, r) \<Rightarrow> [py_fmod theta (2 * pi), phi + pi / 2, w]) leb;
                gridData = map (\<lambda>i. gridData ! i) (argsort env (map (\<lambda>row. row ! 1) gridData));
                gridData = map (\<lambda>i. gridData ! i) (argsort env (map (\<lambda>row. row ! 0) gridData));
                Nmax = real_of_int \<lfloor>sqrt (real_of_int degree / 1.3) - 1\<rfloor>
            in (out, Inr (gridData, Nmax))))"

section \<open>gaussGrid\<close>

text \<open>
  One pass of the loop of \<^verbatim>\<open>gaussGrid\<close> assigns the three columns of the rows
  \<open>curIDX..curIDX + ELnodes - 1\<close>: the azimuth \<open>AZ[k]\<close> repeated, the elevations
  and the weights \<open>W[k]\<close>, both reversed when \<open>k\<close> is even (the slice step is
  \<^verbatim>\<open>-1 + k % 2 * 2\<close>). \<open>grid_block\<close> is the rows it writes.
\<close>

definition flip_every_second :: "nat \<Rightarrow> 'a list \<Rightarrow> 'a list" where
  "flip_every_second k xs = (if k mod 2 = 0 then rev xs else xs)"

definition grid_block :: "real list \<Rightarrow> real list \<Rightarrow> real list list \<Rightarrow> nat \<Rightarrow> real list list" where
  "grid_block AZ EL W k =
     map (\<lambda>(e, w). [AZ ! k, e, w]) (zip (flip_every_second k EL) (flip_every_second k (W ! k)))"

definition gaussGrid_step :: "nat \<Rightarrow> real list \<Rightarrow> real list \<Rightarrow> real list list \<Rightarrow> nat \<Rightarrow> real list list \<Rightarrow> real list list" where
  "gaussGrid_step ELnodes AZ EL W k gridData =
     (let curIDX = k * ELnodes
      in take curIDX gridData @ grid_block AZ EL W k @ drop (curIDX + ELnodes) gridData)"

text \<open>
  \<^verbatim>\<open>gaussGrid(AZnodes, ELnodes)\<close> for node counts that are not negative. numpy's
  \<open>leggauss\<close> raises for no node; for \<open>ELnodes\<close> nodes it answers \<open>ELnodes\<close> roots
  and \<open>ELnodes\<close> weights. \<open>mem\<close> is the content of the memory that \<^verbatim>\<open>numpy.empty\<close>
  hands out for \<open>gridData\<close>.
\<close>

definition gaussGrid :: "collaborators \<Rightarrow> (nat \<Rightarrow> nat \<Rightarrow> real) \<Rightarrow> nat \<Rightarrow> nat \<Rightarrow> error + real list list" where
  "gaussGrid env mem AZnodes ELnodes =
     (let AZ = map (\<lambda>x. x * 2 * pi / real AZnodes) (linspace 0 (real AZnodes - 1) AZnodes);
          AZw = replicate AZnodes (1 * 2 * pi / real AZnodes)
      in if ELnodes = 0 then Inl (ValueError ''deg must be a positive integer'')
         else
           (let EL = map arccos (fst (leggauss env ELnodes));
                ELw = snd (leggauss env ELnodes);
                W = map (\<lambda>a. map (\<lambda>e. a * e / 3) ELw) AZw;
                Wsum = sum_list (map sum_list W);
                W = map (map (\<lambda>x. x / Wsum)) W
            in Inr (fold (gaussGrid_step ELnodes AZ EL W) [0..<AZnodes]
                      (np_empty mem (ELnodes * AZnodes) 3))))"

section \<open>sampledWave\<close>

text \<open>
  The radius argument is a float, or a list for the rigid sphere configurations
  (\<^verbatim>\<open>isinstance(r, list)\<close>).
\<close>

datatype radius = RScalar real | RList "real list"

text \<open>
  How Python binds the arguments of a call: more positional arguments than parameters, a
  keyword that names no parameter, or a keyword that names a parameter already given by
  position, raise \<^verbatim>\<open>TypeError\<close> before the body runs.
\<close>

definition call_error :: "string list \<Rightarrow> nat \<Rightarrow> string list \<Rightarrow> error option" where
  "call_error params npos kws =
     (if npos > length params then Some (TypeError ''too many positional arguments'')
      else
        (case filter (\<lambda>k. k \<notin> set params) kws of
           k # ks \<Rightarrow> Some (TypeError (''unexpected keyword argument '' @ k))
         | [] \<Rightarrow>
             (case filter (\<lambda>k. k \<in> set (take npos params)) kws of
                k # ks \<Rightarrow> Some (TypeError (''multiple values for argument '' @ k))
              | [] \<Rightarrow> None)))"

definition ideal_wave_params :: "string list" where
  "ideal_wave_params =
     [''N'', ''azimuth'', ''colatitude'', ''array_radius'', ''array_configuration'',
      ''transducer_type'', ''scatter_radius'', ''wavetype'', ''distance'', ''fs'', ''F_NFFT'',
      ''delay'', ''c'', ''SegN'', ''lowerSegLim'', ''upperSegLim'']"

text \<open>
  The call \<^verbatim>\<open>ideal_wave(Ng, r, ac, FS, NFFT, AZ, EL, wavetype=wavetype, ds=ds,
  lowerSegLim=fOrders[0], upperSegLim=fOrders[-1], SegN=order, printInfo=False)\<close> of
  \<^verbatim>\<open>sampledWave\<close>: seven positional arguments and six keywords. Were it bound, the
  positional arguments would fill the first seven parameters in order and the other
  parameters keep their defaults; a list \<open>r\<close> has no place in the real-valued azimuth and
  stands as 0 there.
\<close>

definition sampledWave_keywords :: "string list" where
  "sampledWave_keywords = [''wavetype'', ''ds'', ''lowerSegLim'', ''upperSegLim'', ''SegN'', ''printInfo'']"

definition call_ideal_wave ::
  "collaborators \<Rightarrow> (nat \<Rightarrow> nat \<Rightarrow> complex) \<Rightarrow> int \<Rightarrow> radius \<Rightarrow> int \<Rightarrow> real \<Rightarrow> int \<Rightarrow> real \<Rightarrow> real \<Rightarrow> int \<Rightarrow> real \<Rightarrow>
   int \<Rightarrow> int \<Rightarrow> int \<Rightarrow> error + complex list list" where
  "call_ideal_wave env mem Ng r ac FS NFFT AZ EL wavetype ds lowerSegLim upperSegLim SegN =
     (case call_error ideal_wave_params 7 sampledWave_keywords of
        Some e \<Rightarrow> Inl e
      | None \<Rightarrow>
          ideal_wave env mem Ng (case r of RScalar x \<Rightarrow> x | RList xs \<Rightarrow> 0) (real_of_int ac) FS
            (PInt NFFT) (PFloat AZ) (Some EL) (PInt wavetype) 1 44100 512 0 343
            (Some SegN) lowerSegLim (Some upperSegLim))"

text \<open>
  The segmentation loop over the enumerated \<open>unique_orders\<close>. Each pass reports its
  progress, finds the bins of the order, calls \<^verbatim>\<open>ideal_wave\<close> and adds row 0 of what
  it returns to every row of \<open>Pnm\<close>.
\<close>

fun segmentation_loop ::
  "collaborators \<Rightarrow> (nat \<Rightarrow> nat \<Rightarrow> complex) \<Rightarrow> int \<Rightarrow> radius \<Rightarrow> int \<Rightarrow> real \<Rightarrow> int \<Rightarrow> real \<Rightarrow> real \<Rightarrow> int \<Rightarrow> real \<Rightarrow>
   int list \<Rightarrow> nat \<Rightarrow> (nat \<times> int) list \<Rightarrow> message list \<Rightarrow> complex list list \<Rightarrow>
   message list \<times> (error + complex list list)" where
  "segmentation_loop env mem Ng r ac FS NFFT AZ EL wavetype ds rqOrders n_orders [] out Pnm = (out, Inr Pnm)"
| "segmentation_loop env mem Ng r ac FS NFFT AZ EL wavetype ds rqOrders n_orders ((idx, order) # rest) out Pnm =
     (let out = out @ [Progress idx n_orders ''sampledWave - Sampled Wave Generator''];
          fOrders = filter (\<lambda>i. rqOrders ! i = order) [0..<length rqOrders]
      in case call_ideal_wave env mem Ng r ac FS NFFT AZ EL wavetype ds
                (int (hd fOrders)) (int (last fOrders)) order of
           Inl e \<Rightarrow> (out, Inl e)
         | Inr res \<Rightarrow>
             segmentation_loop env mem Ng r ac FS NFFT AZ EL wavetype ds rqOrders n_orders rest out
               (map (\<lambda>row. map (\<lambda>(a, b). a + b) (zip row (res ! 0))) Pnm))"

text \<open>
  The kr vector, or the matrix of two rows for a list \<open>r\<close>, with the reference row
  \<open>krRef\<close>. \<^verbatim>\<open>r * pi * FS / c\<close> is a division of Python floats, which raises for
  \<open>c = 0\<close>; the sample count \<^verbatim>\<open>NFFT / 2 + 1\<close> is a float, which \<^verbatim>\<open>linspace\<close> takes
  through \<^verbatim>\<open>int\<close> and refuses when negative.
\<close>

definition sampledWave_kr :: "radius \<Rightarrow> real \<Rightarrow> int \<Rightarrow> real \<Rightarrow> error + kr_array \<times> real list" where
  "sampledWave_kr r FS NFFT c =
     (let num = py_int (real_of_int NFFT / 2 + 1) in
      case r of
        RScalar x \<Rightarrow>
          if c = 0 then Inl ZeroDivisionError
          else if num < 0 then Inl (ValueError ''Number of samples must be non-negative.'')
          else Inr (Vec (linspace 0 (x * pi * FS / c) (nat num)), linspace 0 (x * pi * FS / c) (nat num))
      | RList xs \<Rightarrow>
          if length xs < 1 then Inl IndexError
          else if c = 0 then Inl ZeroDivisionError
          else if num < 0 then Inl (ValueError ''Number of samples must be non-negative.'')
          else if length xs < 2 then Inl IndexError
          else
            (let kr0 = linspace 0 (xs ! 0 * pi * FS / c) (nat num);
                 kr1 = linspace 0 (xs ! 1 * pi * FS / c) (nat num)
             in Inr (Mat kr0 kr1, if xs ! 0 > xs ! 1 then kr0 else kr1)))"

text \<open>
  The part of \<^verbatim>\<open>sampledWave\<close> after \<open>kr\<close> and \<open>krRef\<close> are known: the required
  orders, clipped to the floor 70 and the ceiling \<open>Nlim\<close>, the report, the
  segmentation loop over the distinct orders and the inverse transform.
  \<^verbatim>\<open>numpy.max\<close> raises on an empty array.
\<close>

definition sampledWave_segments ::
  "collaborators \<Rightarrow> (nat \<Rightarrow> nat \<Rightarrow> complex) \<Rightarrow> radius \<Rightarrow> real list list \<Rightarrow> int \<Rightarrow> real \<Rightarrow> int \<Rightarrow> real \<Rightarrow> real \<Rightarrow>
   int \<Rightarrow> real \<Rightarrow> int \<Rightarrow> bool \<Rightarrow> message list \<Rightarrow> kr_array \<Rightarrow> real list \<Rightarrow>
   message list \<times> (error + complex list list \<times> kr_array)" where
  "sampledWave_segments env mem r gridData ac FS NFFT AZ EL wavetype ds Nlim printInfo out kr krRef =
     (let minOrderLim = 70;
          rqOrders = map (\<lambda>x. \<lceil>x * 2\<rceil>) krRef
      in if rqOrders = [] then (out, Inl (ValueError ''zero-size array to reduction operation maximum''))
         else
           (let maxReqOrder = Max (set rqOrders);
                rqOrders = map (\<lambda>x. if x \<le> minOrderLim then minOrderLim else x) rqOrders;
                rqOrders = map (\<lambda>x. if x > Nlim then Nlim else x) rqOrders;
                Ng = Max (set rqOrders);
                out = out @
                  (if maxReqOrder > Ng then [MsgInts ''WARNING: Requested wave needs a minimum order of'' maxReqOrder Ng]
                   else if minOrderLim = Ng then
                     (if printInfo then [MsgInts ''Full spectrum generator order: '' Ng Ng] else [])
                   else
                     (if printInfo then [MsgInts ''Segmented generator orders: '' minOrderLim Ng] else []));
                Pnm = np_zeros (nat ((Ng + 1) ^ 2)) (nat (py_int (real_of_int NFFT / 2 + 1)));
                unique_orders = sort (remdups rqOrders)
            in case segmentation_loop env mem Ng r ac FS NFFT AZ EL wavetype ds rqOrders
                      (length unique_orders) (zip [0..<length unique_orders] unique_orders) out Pnm of
                 (out, Inl e) \<Rightarrow> (out, Inl e)
               | (out, Inr Pnm) \<Rightarrow> (out, Inr (iSpatFT env Pnm gridData, kr))))"

text \<open>The default grid: \<^verbatim>\<open>lebedev(110)[0]\<close> when no grid is given.\<close>

definition default_grid :: "collaborators \<Rightarrow> real list list option \<Rightarrow> message list \<times> (error + real list list)" where
  "default_grid env gridData =
     (case gridData of
        None \<Rightarrow>
          (case lebedev env 110 True of
             (out, Inl e) \<Rightarrow> (out, Inl e)
           | (out, Inr res) \<Rightarrow> (out, Inr (fst res)))
      | Some g \<Rightarrow> ([], Inr g))"

text \<open>
  \<^verbatim>\<open>sampledWave(r, gridData, ac, FS, NFFT, AZ, EL, c, wavetype, ds, Nlim, printInfo)\<close>.
  The result is what was printed and the pair \<open>(fftData, kr)\<close>, or the error.
\<close>

definition sampledWave ::
  "collaborators \<Rightarrow> (nat \<Rightarrow> nat \<Rightarrow> complex) \<Rightarrow> radius \<Rightarrow> real list list option \<Rightarrow> int \<Rightarrow> real \<Rightarrow> int \<Rightarrow> real \<Rightarrow> real \<Rightarrow>
   real \<Rightarrow> int \<Rightarrow> real \<Rightarrow> int \<Rightarrow> bool \<Rightarrow> message list \<times> (error + complex list list \<times> kr_array)" where
  "sampledWave env mem r gridData ac FS NFFT AZ EL c wavetype ds Nlim printInfo =
     (case default_grid env gridData of
        (out, Inl e) \<Rightarrow> (out, Inl e)
      | (out, Inr gridData) \<Rightarrow>
          (case sampledWave_kr r FS NFFT c of
             Inl e \<Rightarrow> (out, Inl e)
           | Inr (kr, krRef) \<Rightarrow>
               sampledWave_segments env mem r gridData ac FS NFFT AZ EL wavetype ds Nlim printInfo out kr krRef))"

section \<open>A concrete set of collaborators\<close>

text \<open>
  Collaborators that answer 1 wherever a response is asked, one grid point, and for
  \<open>leggauss\<close> the midpoint rule; the concrete instances below are evaluated with them.
\<close>

definition unit_collaborators :: collaborators where
  "unit_collaborators =
     \<lparr>sph_harm = (\<lambda>m n az col. 1),
      array_extrapolation = (\<lambda>n a b cfg sr tt. 1),
      kr_sph = (\<lambda>f d. f * d),
      sphankel2 = (\<lambda>n x. 1),
      iSpatFT = (\<lambda>P g. P),
      genGrid = (\<lambda>d. [(1, 0, 0, 1)]),
      cart2sph = (\<lambda>x y z. (0, 0, 1)),
      leggauss = (\<lambda>n. (replicate n 0, replicate n (2 / real n))),
      argsort = (\<lambda>xs. [0..<length xs])\<rparr>"

section \<open>Properties of ideal\_wave\<close>

lemma core_step_pair:
  "core_step env az col rf n m (P, ctr) =
     (P[ctr := map (\<lambda>x. cnj (sph_harm env m (int n) az col) * x) (rf ! n)], ctr + 1)"
  by (simp add: core_step_def)

text \<open>The inner loop writes the rows \<open>ctr..ctr + length ms - 1\<close> and no other.\<close>

lemma core_inner:
  "fold (core_step env az col rf n) ms (P, ctr) = (P', ctr') \<Longrightarrow>
   ctr' = ctr + length ms \<and> length P' = length P \<and> (\<forall>i. ctr + length ms \<le> i \<longrightarrow> P' ! i = P ! i)"
proof (induction ms arbitrary: P ctr)
  case Nil
  then show ?case by simp
next
  case (Cons m ms)
  from Cons.prems have
    "fold (core_step env az col rf n) ms
       (P[ctr := map (\<lambda>x. cnj (sph_harm env m (int n) az col) * x) (rf ! n)], ctr + 1) = (P', ctr')"
    by (simp add: core_step_pair)
  from Cons.IH[OF this] show ?case by simp
qed

text \<open>After the orders \<open>0..k-1\<close> the counter is \<open>k\<^sup>2\<close> and the rows from \<open>k\<^sup>2\<close> on are as before.\<close>

lemma core_outer:
  "fold (\<lambda>n st. fold (core_step env az col rf n) [- int n..int n] st) [0..<k] (P, 0) = (P', ctr') \<Longrightarrow>
   ctr' = k ^ 2 \<and> length P' = length P \<and> (\<forall>i. k ^ 2 \<le> i \<longrightarrow> P' ! i = P ! i)"
proof (induction k arbitrary: P' ctr')
  case 0
  then show ?case by simp
next
  case (Suc k)
  obtain Q c where mid:
    "fold (\<lambda>n st. fold (core_step env az col rf n) [- int n..int n] st) [0..<k] (P, 0) = (Q, c)"
    by (cases "fold (\<lambda>n st. fold (core_step env az col rf n) [- int n..int n] st) [0..<k] (P, 0)")
  from Suc.IH[OF mid] have q: "c = k ^ 2" "length Q = length P" "\<forall>i. k ^ 2 \<le> i \<longrightarrow> Q ! i = P ! i"
    by simp_all
  from Suc.prems mid have "fold (core_step env az col rf k) [- int k..int k] (Q, c) = (P', ctr')"
    by simp
  from core_inner[OF this] have p: "ctr' = c + (2 * k + 1)" "length P' = length Q"
    "\<forall>i. c + (2 * k + 1) \<le> i \<longrightarrow> P' ! i = Q ! i"
    by simp_all
  have e: "c + (2 * k + 1) = (Suc k) ^ 2"
    using q(1) by (simp add: power2_eq_square)
  show ?case using p q e by simp
qed





lemma generator_core_untouched:
  assumes "nat (SegN + 1) ^ 2 \<le> i"
  shows "generator_core env az col rf SegN P ! i = P ! i"
proof -
  obtain Q c where mid:
    "fold (\<lambda>n st. fold (core_step env az col rf n) [- int n..int n] st) [0..<nat (SegN + 1)] (P, 0) = (Q, c)"
    by (cases "fold (\<lambda>n st. fold (core_step env az col rf n) [- int n..int n] st) [0..<nat (SegN + 1)] (P, 0)")
  from core_outer[OF mid] assms have "Q ! i = P ! i" by simp
  then show ?thesis by (simp add: generator_core_def mid)
qed


lemma np_empty_nth: "i < rows \<Longrightarrow> j < cols \<Longrightarrow> np_empty mem rows cols ! i ! j = mem i j"
  by (simp add: np_empty_def)


text \<open>What a call that passes the safety checks returns.\<close>

lemma ideal_wave_Inr:
  "ideal_wave env mem N azimuth colatitude array_radius array_configuration transducer_type
      scatter_radius wavetype distance fs F_NFFT delay c SegN lowerSegLim upperSegLim = Inr Pnm \<Longrightarrow>
   Pnm = generator_core env azimuth colatitude
           (radial_filter_bank env array_radius array_configuration transducer_type wavetype distance fs c delay
              ((N + 1) ^ 2) (py_int (real_of_int F_NFFT / 2 + 1)) (case SegN of None \<Rightarrow> N | Some s \<Rightarrow> s))
           (case SegN of None \<Rightarrow> N | Some s \<Rightarrow> s)
           (np_empty mem (nat ((N + 1) ^ 2)) (nat (py_int (real_of_int F_NFFT / 2 + 1))))"
  by (simp add: ideal_wave_def Let_def split: if_splits)

text \<open>
  C4. The claim: for every valid call with segment order \<open>SegN\<close> strictly below \<open>N\<close>,
  every row of the returned \<open>Pnm\<close> at or above index \<open>(SegN + 1)\<^sup>2\<close> is zero in every
  bin. The code allocates \<open>Pnm\<close> with \<^verbatim>\<open>numpy.empty\<close> and writes the rows below
  \<open>(SegN + 1)\<^sup>2\<close> only: every entry of a row at or above it is whatever the allocated
  memory held, which need not be zero.
\<close>

theorem ideal_wave_rows_above_SegN_uninitialised:
  assumes ok: "ideal_wave env mem N azimuth colatitude array_radius array_configuration transducer_type
      scatter_radius wavetype distance fs F_NFFT delay c (Some s) lowerSegLim upperSegLim = Inr Pnm"
    and s: "0 \<le> s" "s < N"
    and i: "nat ((s + 1) ^ 2) \<le> i" "i < nat ((N + 1) ^ 2)"
    and j: "j < nat (py_int (real_of_int F_NFFT / 2 + 1))"
  shows "Pnm ! i ! j = mem i j"
proof -
  have sq: "nat (s + 1) ^ 2 = nat ((s + 1) ^ 2)"
    using s(1) by (simp add: nat_power_eq)
  have "Pnm ! i = np_empty mem (nat ((N + 1) ^ 2)) (nat (py_int (real_of_int F_NFFT / 2 + 1))) ! i"
    using ideal_wave_Inr[OF ok] generator_core_untouched[of s i] i(1) sq by simp
  then show ?thesis using i(2) j by (simp add: np_empty_nth)
qed

text \<open>
  The call \<^verbatim>\<open>ideal_wave(1, 0, 0, 0.5, distance=1.0, F_NFFT=2, SegN=0)\<close> on memory that
  holds 1 everywhere succeeds, and row 1 of its result holds 1 in bin 0.
\<close>

theorem ideal_wave_rows_above_SegN_uninitialised_witness:
  "\<exists>Pnm. ideal_wave unit_collaborators (\<lambda>i j. 1) 1 0 0 (1 / 2) (PStr ''open'' True) (PStr ''pressure'' True) None
      (PStr ''plane'' True) 1 44100 2 0 343 (Some 0) 0 None = Inr Pnm \<and> Pnm ! 1 ! 0 = 1"
proof -
  have "\<exists>Pnm. ideal_wave unit_collaborators (\<lambda>i j. 1) 1 0 0 (1 / 2) (PStr ''open'' True) (PStr ''pressure'' True) None
      (PStr ''plane'' True) 1 44100 2 0 343 (Some 0) 0 None = Inr Pnm"
    by (simp add: ideal_wave_def Let_def py_int_def str_in_def str_is_def)
  then obtain Pnm where ok: "ideal_wave unit_collaborators (\<lambda>i j. 1) 1 0 0 (1 / 2) (PStr ''open'' True)
      (PStr ''pressure'' True) None (PStr ''plane'' True) 1 44100 2 0 343 (Some 0) 0 None = Inr Pnm"
    by blast
  have "Pnm ! 1 ! 0 = (\<lambda>i j. 1) (1::nat) (0::nat)"
    by (rule ideal_wave_rows_above_SegN_uninitialised[OF ok]) (simp_all add: py_int_def)
  with ok show ?thesis by simp
qed

text \<open>
  C5. The claim: every call to \<^verbatim>\<open>ideal_wave\<close> with wavetype \<^verbatim>\<open>'plane'\<close> and a distance
  less than or equal to the array radius fails with a validation error, the boundary
  \<open>distance = array_radius\<close> included. The code tests \<^verbatim>\<open>wavetype is 'plane'\<close>, the
  identity of the object. When the wavetype is the literal itself the call fails with a
  \<^verbatim>\<open>ValueError\<close> of the safety checks, whatever the other arguments. When it is another
  string object of the characters \<^verbatim>\<open>plane\<close> (such as \<^verbatim>\<open>''.join(['pla', 'ne'])\<close>), the
  membership test accepts it, the identity test is false, the distance is not checked
  and the call returns a matrix: the second conjunct is such a call at the boundary
  \<open>distance = array_radius = 0.5\<close>.
\<close>

theorem ideal_wave_plane_source_inside_identity_test:
  "(distance \<le> array_radius \<longrightarrow>
      (\<exists>msg. ideal_wave env mem N azimuth colatitude array_radius array_configuration transducer_type
         scatter_radius (PStr ''plane'' True) distance fs F_NFFT delay c SegN lowerSegLim upperSegLim
           = Inl (ValueError msg))) \<and>
   (\<exists>Pnm. ideal_wave unit_collaborators (\<lambda>i j. 0) 1 0 0 (1 / 2) (PStr ''open'' True) (PStr ''pressure'' True) None
      (PStr ''plane'' False) (1 / 2) 44100 512 0 343 None 0 None = Inr Pnm)"
  by (simp add: ideal_wave_def Let_def py_int_def str_in_def str_is_def)


theorem ideal_wave_plane_source_inside_identity_test_witness:
  "(\<exists>msg. ideal_wave unit_collaborators (\<lambda>i j. 0) 1 0 0 (1 / 2) (PStr ''open'' True) (PStr ''pressure'' True) None
      (PStr ''plane'' True) (1 / 2) 44100 512 0 343 None 0 None = Inl (ValueError msg)) \<and>
   (\<exists>Pnm. ideal_wave unit_collaborators (\<lambda>i j. 0) 1 0 0 (1 / 2) (PStr ''open'' True) (PStr ''pressure'' True) None
      (PStr ''plane'' False) (1 / 2) 44100 512 0 343 None 0 None = Inr Pnm)"
  using ideal_wave_plane_source_inside_identity_test[of "1 / 2" "1 / 2" unit_collaborators "\<lambda>i j. 0" 1 0 0 "PStr ''open'' True" "PStr ''pressure'' True"
      None 44100 512 0 343 None 0 None]
  by simp





section \<open>Properties of radFilter\<close>

lemma plc_guard_1: "plc_guard krN 1 = False"
  by (simp add: plc_guard_def)

lemma plc_guard_2: "plc_guard krN 2 = False"
  by (simp add: plc_guard_def)

text \<open>With \<open>plc\<close> 1 or 2 the guard on the bin count never fires and \<open>xi\<close> is never bound.\<close>

lemma radFilter_vec_unbound:
  "plc = 1 \<or> plc = 2 \<Longrightarrow>
   radFilter_vec env mem out N v ac amp_maxdB plc fadeover printInfo =
     \<lparr>printed = out, returned = Inl (UnboundLocalError ''xi''), kr_after = Vec v\<rparr>"
  by (auto simp: radFilter_vec_def Let_def plc_guard_1 plc_guard_2)

lemma kr_guard_vec_ok:
  "2 \<le> length v \<Longrightarrow> kr_guard (Vec v) = (Inr (), Vec (if v ! 0 = 0 then v[0 := v ! 1] else v))"
  by (cases v; cases "tl v") (auto simp: kr_guard_def)



text \<open>
  A call that succeeds, for comparison: \<open>plc = 0\<close> on the vector \<open>[0, 3]\<close> with unit
  responses returns unit filters and a unit beam response.
\<close>

lemma radFilter_plc_off_example:
  "returned (radFilter unit_collaborators (\<lambda>i j. 0) 0 (Vec [0, 3]) 0 0 0 0 False) = Inr ([[1, 1]], [1, 1])"
  by (simp add: radFilter_def Let_def kr_guard_def radFilter_vec_def plc_guard_def bn_filters_def
      np_empty_def amplicalc_def bn_def unit_collaborators_def xi_curve_def beam_response_def upt_rec)

text \<open>
  C1. The claim: with full-spectrum powerloss compensation and at least 32 bins the
  order-0 row of the returned filter bank is the curve \<open>xi\<close>. The code binds \<open>xi\<close> under
  \<^verbatim>\<open>if not plc\<close>, that is only when compensation is off, and reads it when \<open>plc\<close> is 1 or
  2: for every kr vector of at least 32 bins, a call with \<open>plc = 2\<close> (full spectrum in
  the code) or \<open>plc = 1\<close> (full spectrum in the docstring) raises on the unbound \<open>xi\<close>
  and returns no filter bank.
\<close>

theorem radFilter_full_spectrum_reads_unbound_xi:
  "32 \<le> length v \<Longrightarrow> plc = 1 \<or> plc = 2 \<Longrightarrow>
   returned (radFilter env mem N (Vec v) ac amp_maxdB plc fadeover printInfo) = Inl (UnboundLocalError ''xi'')"
  by (simp add: radFilter_def Let_def kr_guard_vec_ok radFilter_vec_unbound)

theorem radFilter_full_spectrum_reads_unbound_xi_witness:
  "returned (radFilter unit_collaborators (\<lambda>i j. 0) 3 (Vec (replicate 32 1)) 2 0 2 0 False)
     = Inl (UnboundLocalError ''xi'')"
  using radFilter_full_spectrum_reads_unbound_xi[of "replicate 32 1" 2 unit_collaborators "\<lambda>i j. 0" 3 2 0 0 False]
  by simp

text \<open>
  C2. The claim: with fewer than 32 bins and a non-zero \<open>plc\<close>, compensation is
  disabled with a diagnostic and the call succeeds. In the code the test
  \<^verbatim>\<open>krN < 32 & plc != 0\<close> is \<^verbatim>\<open>krN < (32 & plc) != 0\<close>, which is false for \<open>plc\<close> 1
  and 2: for every kr vector of fewer than 32 bins and \<open>plc\<close> 1 or 2 the call raises and
  the diagnostic is not printed.
\<close>

theorem radFilter_few_bins_plc_not_disabled:
  "length v < 32 \<Longrightarrow> plc = 1 \<or> plc = 2 \<Longrightarrow>
   (\<exists>e. returned (radFilter env mem N (Vec v) ac amp_maxdB plc fadeover printInfo) = Inl e) \<and>
   Msg ''Not enough kr values for PLC fading. PLC disabled.''
     \<notin> set (printed (radFilter env mem N (Vec v) ac amp_maxdB plc fadeover printInfo))"
  by (cases v; cases "tl v")
     (auto simp: radFilter_def Let_def kr_guard_def radFilter_vec_unbound split: list.splits)

theorem radFilter_few_bins_plc_not_disabled_witness:
  "(\<exists>e. returned (radFilter unit_collaborators (\<lambda>i j. 0) 0 (Vec [1, 2]) 0 0 1 0 False) = Inl e) \<and>
   Msg ''Not enough kr values for PLC fading. PLC disabled.''
     \<notin> set (printed (radFilter unit_collaborators (\<lambda>i j. 0) 0 (Vec [1, 2]) 0 0 1 0 False))"
  using radFilter_few_bins_plc_not_disabled[of "[1, 2]" 1 unit_collaborators "\<lambda>i j. 0" 0 0 0 0 False]
  by simp




text \<open>
  C10. For every kr matrix of two rows with more than one bin per row, \<^verbatim>\<open>radFilter\<close>
  raises at the degenerate-kr guard, which asks for the truth value of a whole row: the
  call returns no filter and leaves the array as it was.
\<close>

theorem radFilter_two_row_kr_raises:
  "1 < length r0 \<Longrightarrow>
   returned (radFilter env mem N (Mat r0 r1) ac amp_maxdB plc fadeover printInfo) = Inl AmbiguousTruthValue \<and>
   kr_after (radFilter env mem N (Mat r0 r1) ac amp_maxdB plc fadeover printInfo) = Mat r0 r1"
  by (simp add: radFilter_def Let_def kr_guard_def)

theorem radFilter_two_row_kr_raises_witness:
  "returned (radFilter unit_collaborators (\<lambda>i j. 0) 1 (Mat [1, 2] [3, 4]) 2 0 0 0 False) = Inl AmbiguousTruthValue \<and>
   kr_after (radFilter unit_collaborators (\<lambda>i j. 0) 1 (Mat [1, 2] [3, 4]) 2 0 0 0 False) = Mat [1, 2] [3, 4]"
  using radFilter_two_row_kr_raises[of "[1, 2]" unit_collaborators "\<lambda>i j. 0" 1 "[3, 4]" 2 0 0 0 False]
  by simp

section \<open>Properties of lebedev\<close>

text \<open>
  C7. \<^verbatim>\<open>lebedev(degree)\<close> fails with the invalid-degree error, which carries the degree
  and the allowed set, for every degree outside
  \<open>{6, 14, 26, 38, 50, 74, 86, 110, 146, 170, 194}\<close>, and returns a grid and \<open>Nmax\<close> for
  every degree in the set.
\<close>

theorem lebedev_degree_check:
  "(degree \<notin> {6, 14, 26, 38, 50, 74, 86, 110, 146, 170, 194} \<longrightarrow>
      snd (lebedev env degree printInfo)
        = Inl (InvalidDegree degree [6, 14, 26, 38, 50, 74, 86, 110, 146, 170, 194])) \<and>
   (degree \<in> {6, 14, 26, 38, 50, 74, 86, 110, 146, 170, 194} \<longrightarrow>
      (\<exists>gridData Nmax. snd (lebedev env degree printInfo) = Inr (gridData, Nmax)))"
  by (simp add: lebedev_def Let_def deg_avail_def)

text \<open>Degree 13 is refused and degree 110 is served.\<close>

theorem lebedev_degree_check_witness:
  "snd (lebedev unit_collaborators 13 True)
     = Inl (InvalidDegree 13 [6, 14, 26, 38, 50, 74, 86, 110, 146, 170, 194]) \<and>
   (\<exists>gridData Nmax. snd (lebedev unit_collaborators 110 True) = Inr (gridData, Nmax))"
  using lebedev_degree_check[of 13 unit_collaborators True]
    lebedev_degree_check[of 110 unit_collaborators True]
  by simp

section \<open>Properties of gaussGrid\<close>

lemma length_linspace: "length (linspace a b n) = n"
  by (simp add: linspace_def)

lemma linspace_iota: "1 \<le> n \<Longrightarrow> linspace 0 (real n - 1) n = map real [0..<n]"
proof (cases "n = 1")
  case True
  then show ?thesis by (simp add: linspace_def)
next
  case False
  assume "1 \<le> n"
  with False have "real n - 1 \<noteq> 0" by simp
  then show ?thesis using False by (simp add: linspace_def)
qed

lemma length_flip: "length (flip_every_second k xs) = length xs"
  by (simp add: flip_every_second_def)

lemma length_grid_block:
  "length EL = m \<Longrightarrow> length (W ! k) = m \<Longrightarrow> length (grid_block AZ EL W k) = m"
  by (simp add: grid_block_def length_flip)

lemma length_concat_blocks:
  "length EL = m \<Longrightarrow> (\<forall>k<n. length (W ! k) = m) \<Longrightarrow>
   length (concat (map (grid_block AZ EL W) [0..<n])) = n * m"
  by (induction n) (simp_all add: length_grid_block)

lemma gaussGrid_step_block:
  "gaussGrid_step m AZ EL W k g = take (k * m) g @ grid_block AZ EL W k @ drop (k * m + m) g"
  by (simp add: gaussGrid_step_def Let_def)

lemma gaussGrid_fold:
  assumes "length EL = m" and "\<forall>k<n. length (W ! k) = m"
  shows "fold (gaussGrid_step m AZ EL W) [0..<n] g0
           = concat (map (grid_block AZ EL W) [0..<n]) @ drop (n * m) g0"
  using assms(2)
proof (induction n)
  case 0
  then show ?case by simp
next
  case (Suc n)
  then have IH: "fold (gaussGrid_step m AZ EL W) [0..<n] g0
           = concat (map (grid_block AZ EL W) [0..<n]) @ drop (n * m) g0"
    by simp
  have len: "length (concat (map (grid_block AZ EL W) [0..<n])) = n * m"
    using Suc.prems assms(1) by (simp add: length_concat_blocks)
  have "fold (gaussGrid_step m AZ EL W) [0..<Suc n] g0
          = gaussGrid_step m AZ EL W n (fold (gaussGrid_step m AZ EL W) [0..<n] g0)"
    by simp
  also have "\<dots> = gaussGrid_step m AZ EL W n (concat (map (grid_block AZ EL W) [0..<n]) @ drop (n * m) g0)"
    by (simp only: IH)
  also have "\<dots> = concat (map (grid_block AZ EL W) [0..<Suc n]) @ drop (Suc n * m) g0"
    by (simp add: gaussGrid_step_block len add.commute)
  finally show ?case .
qed

lemma sum_list_flip: "sum_list (flip_every_second k (xs::real list)) = sum_list xs"
  by (simp add: flip_every_second_def rev_map[symmetric] sum_list_rev)

lemma weights_block:
  "length EL = length (W ! k) \<Longrightarrow>
   sum_list (map (\<lambda>row. row ! 2) (grid_block AZ EL W k)) = sum_list (W ! k)"
proof -
  assume l: "length EL = length (W ! k)"
  have "map (\<lambda>row. row ! 2) (grid_block AZ EL W k) = map snd (zip (flip_every_second k EL) (flip_every_second k (W ! k)))"
    by (simp add: grid_block_def case_prod_unfold)
  also have "\<dots> = flip_every_second k (W ! k)"
    using l by (simp add: length_flip)
  finally show ?thesis by (simp add: sum_list_flip)
qed

lemma weights_concat:
  "(\<forall>k<n. length (W ! k) = length EL) \<Longrightarrow>
   sum_list (map (\<lambda>row. row ! 2) (concat (map (grid_block AZ EL W) [0..<n])))
     = sum_list (map (\<lambda>k. sum_list (W ! k)) [0..<n])"
  by (induction n) (simp_all add: weights_block)


lemma sum_normalised:
  fixes W :: "real list list"
  assumes "sum_list (map sum_list W) \<noteq> 0"
  shows "sum_list (map sum_list (map (map (\<lambda>x. x / sum_list (map sum_list W))) W)) = 1"
proof -
  have a: "sum_list (map (\<lambda>x. x / c) xs) = sum_list xs / c" for c :: real and xs
    by (induction xs) (simp_all add: add_divide_distrib)
  have "sum_list (map sum_list (map (map (\<lambda>x. x / c)) W)) = sum_list (map sum_list W) / c" for c :: real
    by (induction W) (simp_all add: a add_divide_distrib)
  then show ?thesis using assms by simp
qed

lemma sum_outer:
  fixes ELw :: "real list"
  shows "sum_list (map sum_list (map (\<lambda>a. map (\<lambda>e. a * e / 3) ELw) (replicate n c))) = real n * (c * sum_list ELw / 3)"
proof -
  have a: "sum_list (map (\<lambda>e. c * e / 3) ELw) = c * sum_list ELw / 3"
    by (induction ELw) (simp_all add: algebra_simps add_divide_distrib)
  have "map sum_list (map (\<lambda>a. map (\<lambda>e. a * e / 3) ELw) (replicate n c))
          = replicate n (c * sum_list ELw / 3)"
    by (simp add: a)
  then show ?thesis
    by (simp only: sum_list_replicate)
qed

lemma sum_nth_upt: "sum_list (map (\<lambda>k. f (W ! k)) [0..<length W]) = sum_list (map f W)"
  by (rule arg_cong[where f = sum_list]) (rule nth_equalityI, simp_all)


lemma set_flip: "set (flip_every_second k xs) = set xs"
  by (simp add: flip_every_second_def)

lemma grid_block_rows:
  assumes "row \<in> set (grid_block AZ EL W k)"
  shows "\<exists>e\<in>set EL. length row = 3 \<and> row ! 0 = AZ ! k \<and> row ! 1 = e"
proof -
  from assms obtain e w where "(e, w) \<in> set (zip (flip_every_second k EL) (flip_every_second k (W ! k)))"
    and row: "row = [AZ ! k, e, w]"
    by (auto simp: grid_block_def)
  then have "e \<in> set EL"
    by (auto dest: set_zip_leftD simp: set_flip)
  with row show ?thesis by auto
qed

lemma azimuth_range:
  assumes "k < n"
  shows "0 \<le> real k * 2 * pi / real n \<and> real k * 2 * pi / real n < 2 * pi"
proof -
  from assms have n: "0 < real n" by simp
  have "real k < real n" using assms by simp
  then have "real k * (2 * pi) < real n * (2 * pi)"
    by (simp add: mult_strict_right_mono)
  then have "real k * 2 * pi / real n < 2 * pi"
    using n by (simp add: pos_divide_less_eq mult.commute mult.left_commute)
  moreover have "0 \<le> real k * 2 * pi / real n" by simp
  ultimately show ?thesis by simp
qed

text \<open>
  The grid for two azimuth nodes and one elevation node, with the midpoint rule for
  \<open>leggauss\<close>: whatever the memory held, the rows are \<open>(0, \<pi>/2, 1/2)\<close> and
  \<open>(\<pi>, \<pi>/2, 1/2)\<close>.
\<close>

lemma gaussGrid_example:
  "gaussGrid unit_collaborators (\<lambda>i j. 7) 2 1 = Inr [[0, pi / 2, 1 / 2], [pi, pi / 2, 1 / 2]]"
  by (simp add: gaussGrid_def Let_def unit_collaborators_def linspace_def np_empty_def gaussGrid_step_def
      grid_block_def flip_every_second_def upt_rec numeral_2_eq_2)

text \<open>
  C6. For all \<open>AZnodes \<ge> 1\<close> and \<open>ELnodes \<ge> 1\<close>, \<^verbatim>\<open>gaussGrid\<close> returns a grid of
  exactly \<open>AZnodes * ELnodes\<close> rows of three columns whose weight column sums to 1,
  with every azimuth in \<open>[0, 2\<pi>)\<close> and every colatitude in \<open>[0, \<pi>]\<close>. The sum is exact
  over the reals. numpy's \<open>leggauss\<close> is taken with its contract: \<open>ELnodes\<close> roots in
  \<open>[-1, 1]\<close> and \<open>ELnodes\<close> weights whose sum is not zero.
\<close>

theorem gaussGrid_rows_weights_ranges:
  assumes az: "1 \<le> AZnodes" and el: "1 \<le> ELnodes"
    and lx: "length (fst (leggauss env ELnodes)) = ELnodes"
    and lw: "length (snd (leggauss env ELnodes)) = ELnodes"
    and rng: "list_all (\<lambda>x. - 1 \<le> x \<and> x \<le> 1) (fst (leggauss env ELnodes))"
    and ws: "sum_list (snd (leggauss env ELnodes)) \<noteq> 0"
  shows "\<exists>gridData. gaussGrid env mem AZnodes ELnodes = Inr gridData \<and>
      length gridData = AZnodes * ELnodes \<and>
      sum_list (map (\<lambda>row. row ! 2) gridData) = 1 \<and>
      list_all (\<lambda>row. length row = 3 \<and> 0 \<le> row ! 0 \<and> row ! 0 < 2 * pi \<and> 0 \<le> row ! 1 \<and> row ! 1 \<le> pi) gridData"
proof -
  define AZ where "AZ = map (\<lambda>x. x * 2 * pi / real AZnodes) (linspace 0 (real AZnodes - 1) AZnodes)"
  define EL where "EL = map arccos (fst (leggauss env ELnodes))"
  define ELw where "ELw = snd (leggauss env ELnodes)"
  define W0 where "W0 = map (\<lambda>a. map (\<lambda>e. a * e / 3) ELw) (replicate AZnodes (1 * 2 * pi / real AZnodes))"
  define W where "W = map (map (\<lambda>x. x / sum_list (map sum_list W0))) W0"
  define G where "G = concat (map (grid_block AZ EL W) [0..<AZnodes])"
  have lenEL: "length EL = ELnodes" by (simp add: EL_def lx)
  have lenW: "length W = AZnodes" by (simp add: W_def W0_def)
  have lenWk: "\<forall>k<AZnodes. length (W ! k) = ELnodes"
    by (simp add: W_def W0_def ELw_def lw)
  have "fold (gaussGrid_step ELnodes AZ EL W) [0..<AZnodes] (np_empty mem (ELnodes * AZnodes) 3)
          = G @ drop (AZnodes * ELnodes) (np_empty mem (ELnodes * AZnodes) 3)"
    unfolding G_def by (rule gaussGrid_fold[OF lenEL lenWk])
  also have "\<dots> = G" by (simp add: np_empty_def mult.commute)
  finally have run: "gaussGrid env mem AZnodes ELnodes = Inr G"
    using el by (simp add: gaussGrid_def Let_def AZ_def EL_def ELw_def W0_def W_def)
  have len: "length G = AZnodes * ELnodes"
    unfolding G_def using length_concat_blocks[OF lenEL lenWk] .
  have "sum_list (map sum_list W0) = real AZnodes * (1 * 2 * pi / real AZnodes * sum_list ELw / 3)"
    unfolding W0_def by (rule sum_outer)
  then have eq: "sum_list (map sum_list W0) = 2 * pi / 3 * sum_list ELw"
    using az by simp
  have nz: "2 * pi / 3 * sum_list ELw \<noteq> 0"
    using ws by (simp add: ELw_def)
  have "sum_list (map sum_list W0) \<noteq> 0"
    unfolding eq by (rule nz)
  then have one: "sum_list (map sum_list W) = 1"
    unfolding W_def by (rule sum_normalised)
  have "sum_list (map (\<lambda>row. row ! 2) G) = sum_list (map (\<lambda>k. sum_list (W ! k)) [0..<AZnodes])"
    unfolding G_def by (rule weights_concat) (simp add: lenWk lenEL)
  also have "\<dots> = sum_list (map sum_list W)"
    using sum_nth_upt[of sum_list W] by (simp add: lenW)
  finally have wsum: "sum_list (map (\<lambda>row. row ! 2) G) = 1" using one by simp
  have AZk: "AZ ! k = real k * 2 * pi / real AZnodes" if "k < AZnodes" for k
    using that az by (simp add: AZ_def linspace_iota)
  have rows: "length row = 3 \<and> 0 \<le> row ! 0 \<and> row ! 0 < 2 * pi \<and> 0 \<le> row ! 1 \<and> row ! 1 \<le> pi"
    if "row \<in> set G" for row
  proof -
    from that obtain k where k: "k < AZnodes" and "row \<in> set (grid_block AZ EL W k)"
      by (auto simp: G_def)
    then obtain e where e: "e \<in> set EL" and r: "length row = 3" "row ! 0 = AZ ! k" "row ! 1 = e"
      using grid_block_rows by blast
    from e obtain x where x: "x \<in> set (fst (leggauss env ELnodes))" and ex: "e = arccos x"
      by (auto simp: EL_def)
    from x rng have "- 1 \<le> x" "x \<le> 1" by (auto simp: list_all_iff)
    then have "0 \<le> e" "e \<le> pi" by (simp_all add: ex arccos_lbound arccos_ubound)
    with r AZk[OF k] azimuth_range[OF k] show ?thesis by simp
  qed
  then have "list_all (\<lambda>row. length row = 3 \<and> 0 \<le> row ! 0 \<and> row ! 0 < 2 * pi \<and> 0 \<le> row ! 1 \<and> row ! 1 \<le> pi) G"
    by (simp add: list_all_iff)
  with run len wsum show ?thesis by blast
qed

theorem gaussGrid_rows_weights_ranges_witness:
  "\<exists>gridData. gaussGrid unit_collaborators (\<lambda>i j. 7) 2 3 = Inr gridData \<and>
      length gridData = 2 * 3 \<and>
      sum_list (map (\<lambda>row. row ! 2) gridData) = 1 \<and>
      list_all (\<lambda>row. length row = 3 \<and> 0 \<le> row ! 0 \<and> row ! 0 < 2 * pi \<and> 0 \<le> row ! 1 \<and> row ! 1 \<le> pi) gridData"
  by (rule gaussGrid_rows_weights_ranges) (simp_all add: unit_collaborators_def eval_nat_numeral)

section \<open>Properties of sampledWave\<close>

text \<open>
  \<^verbatim>\<open>ideal_wave\<close> has no parameter \<^verbatim>\<open>ds\<close> and none \<^verbatim>\<open>printInfo\<close>, so the call in the
  segmentation loop is refused when its arguments are bound.
\<close>

lemma call_ideal_wave_fails:
  "call_ideal_wave env mem Ng r ac FS NFFT AZ EL wavetype ds lowerSegLim upperSegLim SegN
     = Inl (TypeError ''unexpected keyword argument ds'')"
  by (simp add: call_ideal_wave_def call_error_def ideal_wave_params_def sampledWave_keywords_def)

lemma segmentation_loop_fails:
  "orders \<noteq> [] \<Longrightarrow>
   snd (segmentation_loop env mem Ng r ac FS NFFT AZ EL wavetype ds rqOrders n_orders orders out Pnm)
     = Inl (TypeError ''unexpected keyword argument ds'')"
  by (cases orders; cases "hd orders") (simp_all add: Let_def call_ideal_wave_fails)

lemma unique_orders_nonempty: "xs \<noteq> [] \<Longrightarrow> zip [0..<length (sort (remdups xs))] (sort (remdups xs)) \<noteq> []"
  by (cases "sort (remdups xs)") (auto simp: upt_rec dest: arg_cong[where f=set])

lemma loop_case_fails:
  assumes "orders \<noteq> []"
  shows "snd (case segmentation_loop env mem Ng r ac FS NFFT AZ EL wavetype ds rqOrders n_orders orders out Pnm of
                   (out, Inl e) \<Rightarrow> (out, Inl e)
                 | (out, Inr P) \<Rightarrow> (out, Inr (f P))) = Inl (TypeError ''unexpected keyword argument ds'')"
  using segmentation_loop_fails[OF assms, of env mem Ng r ac FS NFFT AZ EL wavetype ds rqOrders n_orders out Pnm]
  by (cases "segmentation_loop env mem Ng r ac FS NFFT AZ EL wavetype ds rqOrders n_orders orders out Pnm") auto

lemma sampledWave_segments_empty:
  "krRef = [] \<Longrightarrow>
   snd (sampledWave_segments env mem r gridData ac FS NFFT AZ EL wavetype ds Nlim printInfo out kr krRef)
     = Inl (ValueError ''zero-size array to reduction operation maximum'')"
  by (simp add: sampledWave_segments_def)

lemma sampledWave_segments_fails:
  assumes "krRef \<noteq> []"
  shows "snd (sampledWave_segments env mem r gridData ac FS NFFT AZ EL wavetype ds Nlim printInfo out kr krRef)
           = Inl (TypeError ''unexpected keyword argument ds'')"
proof -
  from assms have ne: "map (\<lambda>x. \<lceil>x * 2\<rceil>) krRef \<noteq> []"
    by simp
  then have "map (\<lambda>x. if x > Nlim then Nlim else x)
               (map (\<lambda>x. if x \<le> 70 then 70 else x) (map (\<lambda>x. \<lceil>x * 2\<rceil>) krRef)) \<noteq> []"
    by simp
  then show ?thesis
    unfolding sampledWave_segments_def Let_def if_not_P[OF ne]
    by (intro loop_case_fails unique_orders_nonempty)
qed

lemma default_grid_None: "\<exists>out g. default_grid env None = (out, Inr g)"
  by (simp add: default_grid_def lebedev_def Let_def deg_avail_def)

lemma sampledWave_kr_default:
  "\<exists>kr krRef. sampledWave_kr (RScalar (1 / 100)) 48000 512 343 = Inr (kr, krRef) \<and> krRef \<noteq> []"
proof -
  have n: "nat (py_int (real_of_int 512 / 2 + 1)) = 257"
    by (simp add: py_int_def)
  have "length (linspace 0 (1 / 100 * pi * 48000 / 343) 257) = 257"
    by (rule length_linspace)
  then have "linspace 0 (1 / 100 * pi * 48000 / 343) 257 \<noteq> []"
    by auto
  then show ?thesis
    by (simp add: sampledWave_kr_def Let_def n py_int_def)
qed

lemma sampledWave_unfold:
  "default_grid env gridData = (out, Inr g) \<Longrightarrow> sampledWave_kr r FS NFFT c = Inr (kr, krRef) \<Longrightarrow>
   sampledWave env mem r gridData ac FS NFFT AZ EL c wavetype ds Nlim printInfo
     = sampledWave_segments env mem r g ac FS NFFT AZ EL wavetype ds Nlim printInfo out kr krRef"
  by (simp add: sampledWave_def)

lemma sampledWave_segments_raises:
  "\<exists>e. snd (sampledWave_segments env mem r g ac FS NFFT AZ EL wavetype ds Nlim printInfo out kr krRef) = Inl e"
proof (cases "krRef = []")
  case True
  then show ?thesis using sampledWave_segments_empty by blast
next
  case False
  then show ?thesis using sampledWave_segments_fails by blast
qed

text \<open>
  What the code does before the call, for the two halves of the claim: the kr vector has
  \<open>int(NFFT / 2 + 1)\<close> samples, and when every required order is at most the floor 70
  the distinct clipped orders are a single one, so there is one segment group.
\<close>

lemma remdups_replicate_pos: "0 < n \<Longrightarrow> remdups (replicate n x) = [x]"
  by (induction n) auto

lemma single_segment_group:
  assumes "rqOrders \<noteq> []" and "list_all (\<lambda>x. x \<le> 70) rqOrders"
  shows "sort (remdups (map (\<lambda>x. if x > Nlim then Nlim else x)
            (map (\<lambda>x. if x \<le> 70 then 70 else x) rqOrders)))
         = [if 70 > Nlim then Nlim else (70::int)]"
proof -
  have "map (\<lambda>x. if x > Nlim then Nlim else x) (map (\<lambda>x. if x \<le> 70 then 70 else x) rqOrders)
        = replicate (length rqOrders) (if 70 > Nlim then Nlim else 70)"
    using assms(2) by (induction rqOrders) auto
  then show ?thesis using assms(1) by (simp add: remdups_replicate_pos)
qed

lemma sampledWave_kr_length:
  "sampledWave_kr (RScalar x) FS NFFT c = Inr (Vec v, krRef) \<Longrightarrow>
   length v = nat (py_int (real_of_int NFFT / 2 + 1))"
  by (auto simp: sampledWave_kr_def Let_def length_linspace split: if_splits)

text \<open>
  C3. The claim: every successful call to \<^verbatim>\<open>sampledWave\<close> returns a kr array of length
  \<open>NFFT/2 + 1\<close>, and for a small radius a single \<^verbatim>\<open>ideal_wave\<close> invocation covers the
  whole spectrum. In the code no call to \<^verbatim>\<open>sampledWave\<close> returns: whatever the
  arguments, the result is an error, and for the default arguments it is the
  \<^verbatim>\<open>TypeError\<close> of the one \<^verbatim>\<open>ideal_wave\<close> invocation, which names keywords the function
  does not have.
\<close>

theorem sampledWave_never_returns:
  "(\<exists>e. snd (sampledWave env mem r gridData ac FS NFFT AZ EL c wavetype ds Nlim printInfo) = Inl e) \<and>
   snd (sampledWave env mem (RScalar (1 / 100)) None 0 48000 512 0 (pi / 2) 343 0 1 120 True)
     = Inl (TypeError ''unexpected keyword argument ds'')"
proof
  obtain out res where dg: "default_grid env gridData = (out, res)"
    by (cases "default_grid env gridData")
  show "\<exists>e. snd (sampledWave env mem r gridData ac FS NFFT AZ EL c wavetype ds Nlim printInfo) = Inl e"
  proof (cases res)
    case (Inl e)
    then show ?thesis by (simp add: sampledWave_def dg)
  next
    case g: (Inr g)
    show ?thesis
    proof (cases "sampledWave_kr r FS NFFT c")
      case (Inl e)
      then show ?thesis by (simp add: sampledWave_def dg g)
    next
      case (Inr p)
      obtain kr krRef where p: "p = (kr, krRef)" by (cases p)
      have "sampledWave env mem r gridData ac FS NFFT AZ EL c wavetype ds Nlim printInfo
          = sampledWave_segments env mem r g ac FS NFFT AZ EL wavetype ds Nlim printInfo out kr krRef"
        using dg g Inr p by (intro sampledWave_unfold) simp_all
      then show ?thesis using sampledWave_segments_raises by simp
    qed
  qed
next
  obtain out g where g: "default_grid env None = (out, Inr g)"
    using default_grid_None by blast
  obtain kr krRef where k: "sampledWave_kr (RScalar (1 / 100)) 48000 512 343 = Inr (kr, krRef)" and ne: "krRef \<noteq> []"
    using sampledWave_kr_default by blast
  have "sampledWave env mem (RScalar (1 / 100)) None 0 48000 512 0 (pi / 2) 343 0 1 120 True
      = sampledWave_segments env mem (RScalar (1 / 100)) g 0 48000 512 0 (pi / 2) 0 1 120 True out kr krRef"
    by (rule sampledWave_unfold[OF g k])
  then show "snd (sampledWave env mem (RScalar (1 / 100)) None 0 48000 512 0 (pi / 2) 343 0 1 120 True)
     = Inl (TypeError ''unexpected keyword argument ds'')"
    by (simp only: sampledWave_segments_fails[OF ne])
qed

end
